theory Spec2Isabelle
  imports Complex_Main "HOL-Library.Sublist"
begin

section \<open>Strings and paths\<close>

type_synonym path = string

text \<open>
  Python's \<^verbatim>\<open>s.replace(old, new)\<close> for a non-empty \<open>old\<close>: scanning from the left, every
  non-overlapping occurrence of \<open>old\<close> is replaced. The counter says how many characters
  of an occurrence that has just been replaced are still to be skipped.
\<close>

primrec replace_go :: "string \<Rightarrow> string \<Rightarrow> nat \<Rightarrow> string \<Rightarrow> string" where
  "replace_go old new k [] = []"
| "replace_go old new k (c # cs) =
     (if 0 < k then replace_go old new (k - 1) cs
      else if take (length old) (c # cs) = old then new @ replace_go old new (length old - 1) cs
      else c # replace_go old new 0 cs)"

definition str_replace :: "string \<Rightarrow> string \<Rightarrow> string \<Rightarrow> string" where
  "str_replace s old new = replace_go old new 0 s"

text \<open>\<^verbatim>\<open>os.path.join(a, b)\<close> on a POSIX system, for two components.\<close>

definition path_join :: "path \<Rightarrow> path \<Rightarrow> path" where
  "path_join a b =
     (if take 1 b = ''/'' then b
      else if a = [] \<or> last a = CHR ''/'' then a @ b
      else a @ ''/'' @ b)"

text \<open>Decimal digits of a natural number, and Python's format specs \<^verbatim>\<open>{n:02d}\<close>, \<^verbatim>\<open>{n:03d}\<close>.\<close>

function str_nat :: "nat \<Rightarrow> string" where
  "str_nat n =
     (if n < 10 then [''0123456789'' ! n]
      else str_nat (n div 10) @ [''0123456789'' ! (n mod 10)])"
  by pat_completeness auto
termination
  by (relation "measure id") auto

declare str_nat.simps [simp del]

definition zero_pad :: "nat \<Rightarrow> string \<Rightarrow> string" where
  "zero_pad w s = replicate (w - length s) CHR ''0'' @ s"

definition fmt_0d :: "nat \<Rightarrow> int \<Rightarrow> string" where
  "fmt_0d w i =
     (if i < 0 then ''-'' @ zero_pad (w - 1) (str_nat (nat (- i)))
      else zero_pad w (str_nat (nat i)))"

text \<open>
  The texts of a script (narration, character ids, prompt fields) are Python strings:
  sequences of Unicode code points. Slicing and \<^verbatim>\<open>len\<close> count code points.
\<close>

type_synonym utext = "nat list"

definition utext_of :: "string \<Rightarrow> utext" where
  "utext_of s = map of_char s"

section \<open>Python floats\<close>

text \<open>
  A finite double is the rational it denotes. \<open>fl\<close> rounds a rational to the nearest
  double, ties to the even significand (53 bits); every arithmetic operation of the source
  on floats is the exact operation followed by \<open>fl\<close>, and a decimal literal such as
  \<^verbatim>\<open>1.05\<close> is \<open>fl (105 / 100)\<close>. The exponent is not bounded: the magnitudes that occur
  (durations in seconds, scores between -1 and 2) are far inside the range of doubles.
\<close>

function bit_length :: "nat \<Rightarrow> nat" where
  "bit_length n = (if n = 0 then 0 else Suc (bit_length (n div 2)))"
  by pat_completeness auto
termination
  by (relation "measure id") auto

declare bit_length.simps [simp del]

text \<open>The exponent \<open>e\<close> with \<open>2 ^ e \<le> a < 2 ^ (e + 1)\<close>, for \<open>a > 0\<close>.\<close>

definition ilog2 :: "rat \<Rightarrow> int" where
  "ilog2 a =
     (if 1 \<le> a then int (bit_length (nat \<lfloor>a\<rfloor>)) - 1
      else - int (bit_length (nat (\<lceil>1 / a\<rceil> - 1))))"

definition pow2 :: "int \<Rightarrow> rat" where
  "pow2 e = (if 0 \<le> e then 2 ^ nat e else 1 / 2 ^ nat (- e))"

definition round_half_even :: "rat \<Rightarrow> int" where
  "round_half_even x =
     (let n = \<lfloor>x\<rfloor>; r = x - of_int n
      in if r < 1 / 2 then n else if 1 / 2 < r then n + 1
         else if even n then n else n + 1)"

definition fl :: "rat \<Rightarrow> rat" where
  "fl q =
     (if q = 0 then 0
      else of_int (round_half_even (q / pow2 (ilog2 \<bar>q\<bar> - 52))) * pow2 (ilog2 \<bar>q\<bar> - 52))"

text \<open>Python's \<^verbatim>\<open>round(x, 3)\<close> of a float: the nearest multiple of 0.001, as a double.\<close>

definition round3 :: "rat \<Rightarrow> rat" where
  "round3 x = fl (of_int (round_half_even (x * 1000)) / 1000)"

section \<open>Path managers (api/utils/paths.py)\<close>

text \<open>
  The orchestrator is given either a \<^verbatim>\<open>PathManager\<close> (legacy runs) or a
  \<^verbatim>\<open>ChapterPathManager\<close> (a chapter of a project). The root directory is the value the
  constructor computed; only the chapter manager has the attributes for the 9:16
  directories and a chapter index.
\<close>

datatype pm = PathManager path string | ChapterPathManager path int

fun pm_root :: "pm \<Rightarrow> path" where
  "pm_root (PathManager rt run_id) = rt"
| "pm_root (ChapterPathManager rt idx) = rt"

definition assets :: "pm \<Rightarrow> path" where
  "assets p = path_join (pm_root p) ''assets''"

definition scenes_dir :: "pm \<Rightarrow> path" where
  "scenes_dir p = path_join (pm_root p) ''scenes''"

definition clips :: "pm \<Rightarrow> path" where
  "clips p = path_join (pm_root p) ''clips''"

definition rendered :: "pm \<Rightarrow> path" where
  "rendered p = clips p"

fun scenes_shorts :: "pm \<Rightarrow> path option" where
  "scenes_shorts (PathManager rt run_id) = None"
| "scenes_shorts (ChapterPathManager rt idx) = Some (path_join rt ''scenes_shorts'')"

fun clips_shorts :: "pm \<Rightarrow> path option" where
  "clips_shorts (PathManager rt run_id) = None"
| "clips_shorts (ChapterPathManager rt idx) = Some (path_join rt ''clips_shorts'')"

fun chapter_shorts_video :: "pm \<Rightarrow> path option" where
  "chapter_shorts_video (PathManager rt run_id) = None"
| "chapter_shorts_video (ChapterPathManager rt idx) = Some (path_join rt ''chapter_shorts.mp4'')"

fun chapter_idx :: "pm \<Rightarrow> int option" where
  "chapter_idx (PathManager rt run_id) = None"
| "chapter_idx (ChapterPathManager rt idx) = Some idx"

fun final_video :: "pm \<Rightarrow> path" where
  "final_video (PathManager rt run_id) =
     path_join (path_join rt ''final'') (''master_'' @ run_id @ ''.mp4'')"
| "final_video (ChapterPathManager rt idx) = path_join rt ''chapter.mp4''"

definition script_file :: "pm \<Rightarrow> path" where
  "script_file p = path_join (pm_root p) ''script.json''"

definition get_audio_path :: "pm \<Rightarrow> int \<Rightarrow> path" where
  "get_audio_path p scene_id = path_join (assets p) (''audio_'' @ fmt_0d 3 scene_id @ ''.mp3'')"

definition get_vtt_path :: "pm \<Rightarrow> int \<Rightarrow> path" where
  "get_vtt_path p scene_id = path_join (assets p) (''audio_'' @ fmt_0d 3 scene_id @ ''.vtt'')"

text \<open>
  The two-argument methods of the chapter manager; the legacy manager's methods take the
  scene id only, and the orchestrator calls them so when the attribute is missing.
\<close>

definition get_scene_video_path :: "pm \<Rightarrow> int \<Rightarrow> bool \<Rightarrow> path" where
  "get_scene_video_path p scene_id shorts =
     path_join (case scenes_shorts p of
                  Some d \<Rightarrow> (if shorts then d else scenes_dir p)
                | None \<Rightarrow> scenes_dir p)
       (''scene_'' @ fmt_0d 3 scene_id @ ''.mp4'')"

definition get_clip_path :: "pm \<Rightarrow> int \<Rightarrow> bool \<Rightarrow> path" where
  "get_clip_path p scene_id shorts =
     path_join (case clips_shorts p of
                  Some d \<Rightarrow> (if shorts then d else clips p)
                | None \<Rightarrow> clips p)
       (''clip_'' @ fmt_0d 3 scene_id @ ''.mp4'')"

section \<open>Files, the transcoding engine and the duration probe\<close>

text \<open>
  A file is an opaque blob with a size in bytes and an identity, or a text file given by
  its lines. The file system maps a path to the file stored there.
\<close>

datatype fobj = Blob nat nat | Lines "string list"

fun getsize :: "fobj \<Rightarrow> nat" where
  "getsize (Blob n tag) = n"
| "getsize (Lines ls) = sum_list (map (\<lambda>l. Suc (length l)) ls)"

type_synonym fsys = "path \<rightharpoonup> fobj"

definition exists_path :: "fsys \<Rightarrow> path \<Rightarrow> bool" where
  "exists_path fs p = (fs p \<noteq> None)"

definition size_gt :: "fsys \<Rightarrow> path \<Rightarrow> nat \<Rightarrow> bool" where
  "size_gt fs p n = (case fs p of None \<Rightarrow> False | Some f \<Rightarrow> n < getsize f)"

definition os_remove :: "fsys \<Rightarrow> path \<Rightarrow> fsys" where
  "os_remove fs p = fs(p := None)"

definition os_rename :: "fsys \<Rightarrow> path \<Rightarrow> path \<Rightarrow> fsys" where
  "os_rename fs a b = (case fs a of None \<Rightarrow> fs | Some f \<Rightarrow> (fs(a := None))(b \<mapsto> f))"

text \<open>
  One request to the external transcoding engine: the inputs, the parameters that depend
  on the scene, and the output path. The concatenation request names its list file and is
  shown with the lines that file holds when the request is made.
\<close>

datatype cmd =
    Veo_render path nat nat path
  | Mix_render path path nat nat path
  | Tts_render path path "rat option" string rat nat nat path
  | Subtitle_burn path path path
  | Normalize_audio path path
  | Concat_demux "string list" path path
  | Cta_overlay path path rat rat nat string path

text \<open>
  \<^verbatim>\<open>run_cmd\<close> returns True when the process exits with 0, False on
  \<^verbatim>\<open>CalledProcessError\<close>, and lets every other exception through.
\<close>

datatype run_result = Ran_ok | Ran_failed | Ran_raised

datatype 'a outcome = Returned 'a | Raised

text \<open>
  A scene is an object of \<^verbatim>\<open>script.json\<close> with the keys the renderer and the matcher
  read; every scene has an \<^verbatim>\<open>id\<close>. An absent \<^verbatim>\<open>audio_priority\<close> is \<open>None\<close>;
  \<^verbatim>\<open>skip_tts\<close> is the truth value of \<^verbatim>\<open>scene.get("skip_tts", False)\<close>; the video prompt
  lists its string fields.
\<close>

record scene =
  scene_id :: int
  narration :: utext
  characters :: "utext list"
  video_prompt :: "(string \<times> utext) list"
  audio_priority :: "string option"
  skip_tts :: bool

text \<open>
  The value of \<^verbatim>\<open>script_data\<close>: \<^verbatim>\<open>None\<close>, the empty dict, a dict (with the list under its
  key \<^verbatim>\<open>scenes\<close>, empty when the key is absent), or a JSON value that is no dict, with
  its truth value.
\<close>

datatype script_data = Py_none | Empty_dict | Script "scene list" | Non_dict bool

text \<open>
  What the orchestrator gets from outside: the engine, the duration probe
  (\<^verbatim>\<open>get_duration\<close>: the seconds \<^verbatim>\<open>ffprobe\<close> reports as a float, 0.0 when it fails) and
  \<^verbatim>\<open>json.load\<close> of a script file (\<open>None\<close> when it raises).
\<close>

record env =
  engine :: "cmd \<Rightarrow> fsys \<Rightarrow> run_result \<times> fsys"
  get_duration :: "fsys \<Rightarrow> path \<Rightarrow> rat"
  json_load :: "fsys \<Rightarrow> path \<Rightarrow> script_data option"

record world =
  files :: fsys
  trace :: "cmd list"

definition run_cmd :: "env \<Rightarrow> cmd \<Rightarrow> world \<Rightarrow> run_result \<times> world" where
  "run_cmd e c w =
     (case engine e c (files w) of
        (r, fs') \<Rightarrow> (r, w\<lparr>files := fs', trace := trace w @ [c]\<rparr>))"


section \<open>The orchestrator's state\<close>

record orch =
  pm_of :: pm
  scenes :: "scene list"
  shorts_mode :: bool
  script_data :: script_data

text \<open>
  \<^verbatim>\<open>_load_existing_script\<close>: the loaded value is stored first; reading its scenes raises for
  a value that is no dict, inside the \<^verbatim>\<open>try\<close>, and the scenes then stay as they were.
\<close>

definition load_existing_script :: "env \<Rightarrow> orch \<Rightarrow> fsys \<Rightarrow> orch" where
  "load_existing_script e orc fs =
     (if exists_path fs (script_file (pm_of orc)) then
        (case json_load e fs (script_file (pm_of orc)) of
           None \<Rightarrow> orc
         | Some (Script ss) \<Rightarrow> orc\<lparr>scenes := ss, script_data := Script ss\<rparr>
         | Some Empty_dict \<Rightarrow> orc\<lparr>scenes := [], script_data := Empty_dict\<rparr>
         | Some d \<Rightarrow> orc\<lparr>script_data := d\<rparr>)
      else orc)"

section \<open>Phase 4: rendering one scene (BibleOrchestrator.render\_scene)\<close>

definition scene_audio_priority :: "orch \<Rightarrow> int \<Rightarrow> string" where
  "scene_audio_priority orc sid =
     (case find (\<lambda>s. scene_id s = sid) (scenes orc) of
        None \<Rightarrow> ''tts''
      | Some scene_data \<Rightarrow>
          (let ap = (case audio_priority scene_data of None \<Rightarrow> ''tts'' | Some a \<Rightarrow> a)
           in if ap = ''tts'' \<and> skip_tts scene_data then ''veo'' else ap))"

definition target_dims :: "bool \<Rightarrow> nat \<times> nat" where
  "target_dims shorts = (if shorts then (1080, 1920) else (1920, 1080))"

text \<open>
  The subtitle stage, written out three times in the source (once per audio policy) with
  the same commands: a second pass burns the captions in when a caption file of more than
  10 bytes exists, and the temp file is removed after that pass whatever its result;
  without captions the temp file is renamed to the clip.
\<close>

definition burn_subtitles :: "env \<Rightarrow> path \<Rightarrow> path \<Rightarrow> path \<Rightarrow> world \<Rightarrow> bool outcome \<times> world" where
  "burn_subtitles e vtt_path temp_path output_path w =
     (if exists_path (files w) vtt_path \<and> size_gt (files w) vtt_path 10 then
        (case run_cmd e (Subtitle_burn temp_path vtt_path output_path) w of
           (Ran_raised, w1) \<Rightarrow> (Raised, w1)
         | (success, w1) \<Rightarrow>
             (let w2 = (if exists_path (files w1) temp_path
                        then w1\<lparr>files := os_remove (files w1) temp_path\<rparr> else w1)
              in if success \<noteq> Ran_ok then (Returned False, w2) else (Returned True, w2)))
      else
        (Returned True,
         if exists_path (files w) temp_path
         then w\<lparr>files := os_rename (files w) temp_path output_path\<rparr> else w))"

text \<open>The base pass of a policy, followed by the subtitle stage when it succeeds.\<close>

definition base_then_subtitles ::
  "env \<Rightarrow> cmd \<Rightarrow> path \<Rightarrow> path \<Rightarrow> path \<Rightarrow> world \<Rightarrow> bool outcome \<times> world" where
  "base_then_subtitles e base vtt_path temp_path output_path w =
     (case run_cmd e base w of
        (Ran_raised, w1) \<Rightarrow> (Raised, w1)
      | (Ran_failed, w1) \<Rightarrow> (Returned False, w1)
      | (Ran_ok, w1) \<Rightarrow> burn_subtitles e vtt_path temp_path output_path w1)"

text \<open>
  Speed adjustment of the default mode (lines 727-738): the audio filter (the tempo factor,
  when one is applied), the audio stream mapped, and the duration given to \<^verbatim>\<open>-t\<close>.
  The factor is the float quotient, compared with the float \<^verbatim>\<open>1.05\<close>.
\<close>

definition tts_plan :: "rat \<Rightarrow> rat \<Rightarrow> rat option \<times> string \<times> rat" where
  "tts_plan video_duration audio_duration =
     (if video_duration > 0 \<and> video_duration < audio_duration then
        (let speed = fl (audio_duration / video_duration)
         in if speed > fl (105 / 100) then (Some speed, ''[a_adj]'', video_duration)
            else (None, ''1:a'', audio_duration))
      else (None, ''1:a'', audio_duration))"

definition render_tts ::
  "env \<Rightarrow> path \<Rightarrow> path \<Rightarrow> path \<Rightarrow> path \<Rightarrow> path \<Rightarrow> nat \<times> nat \<Rightarrow> world \<Rightarrow> bool outcome \<times> world" where
  "render_tts e video_path audio_path vtt_path temp_path output_path dims w =
     (if \<not> exists_path (files w) audio_path then (Returned False, w)
      else
        (let audio_duration = get_duration e (files w) audio_path;
             video_duration = get_duration e (files w) video_path
         in if audio_duration \<le> 0 then (Returned False, w)
            else
              (case tts_plan video_duration audio_duration of
                 (audio_filter, audio_map, duration_to_use) \<Rightarrow>
                   base_then_subtitles e
                     (Tts_render video_path audio_path audio_filter audio_map duration_to_use
                        (fst dims) (snd dims) temp_path)
                     vtt_path temp_path output_path w)))"

definition render_scene :: "env \<Rightarrow> orch \<Rightarrow> int \<Rightarrow> world \<Rightarrow> bool outcome \<times> world" where
  "render_scene e orc sid w =
     (let shorts = shorts_mode orc;
          video_path = get_scene_video_path (pm_of orc) sid shorts;
          audio_path = get_audio_path (pm_of orc) sid;
          vtt_path = get_vtt_path (pm_of orc) sid;
          output_path = get_clip_path (pm_of orc) sid shorts;
          temp_path = str_replace output_path ''.mp4'' ''_temp.mp4'';
          dims = target_dims shorts
      in
        if exists_path (files w) output_path \<and> size_gt (files w) output_path (1024 * 1024)
        then (Returned True, w)
        else if \<not> exists_path (files w) video_path then (Returned False, w)
        else
          (let audio_priority = scene_audio_priority orc sid
           in if audio_priority = ''veo'' then
                base_then_subtitles e (Veo_render video_path (fst dims) (snd dims) temp_path)
                  vtt_path temp_path output_path w
              else if audio_priority = ''mix'' then
                (if \<not> exists_path (files w) audio_path then
                   \<comment> \<open>the priority is set to veo here, below the veo branch: control goes on
                       to the default mode\<close>
                   render_tts e video_path audio_path vtt_path temp_path output_path dims w
                 else
                   base_then_subtitles e
                     (Mix_render video_path audio_path (fst dims) (snd dims) temp_path)
                     vtt_path temp_path output_path w)
              else render_tts e video_path audio_path vtt_path temp_path output_path dims w))"

text \<open>
  The base request that \<open>render_scene\<close> makes for a scene without a finished clip, read off
  its three branches; \<open>None\<close> where it returns False before any request. That
  \<open>render_scene\<close> is this request followed by the subtitle stage is proved below
  (\<open>render_scene_base_request\<close>).
\<close>

definition base_request :: "env \<Rightarrow> orch \<Rightarrow> int \<Rightarrow> fsys \<Rightarrow> cmd option" where
  "base_request e orc sid fs =
     (let shorts = shorts_mode orc;
          video_path = get_scene_video_path (pm_of orc) sid shorts;
          audio_path = get_audio_path (pm_of orc) sid;
          temp_path = str_replace (get_clip_path (pm_of orc) sid shorts) ''.mp4'' ''_temp.mp4'';
          dims = target_dims shorts;
          audio_priority = scene_audio_priority orc sid
      in if \<not> exists_path fs video_path then None
         else if audio_priority = ''veo''
         then Some (Veo_render video_path (fst dims) (snd dims) temp_path)
         else if audio_priority = ''mix'' \<and> exists_path fs audio_path
         then Some (Mix_render video_path audio_path (fst dims) (snd dims) temp_path)
         else if \<not> exists_path fs audio_path \<or> get_duration e fs audio_path \<le> 0 then None
         else
           (case tts_plan (get_duration e fs video_path) (get_duration e fs audio_path) of
              (audio_filter, audio_map, duration_to_use) \<Rightarrow>
                Some (Tts_render video_path audio_path audio_filter audio_map duration_to_use
                        (fst dims) (snd dims) temp_path)))"

section \<open>Phase 4: rendering all scenes (BibleOrchestrator.render\_all)\<close>

text \<open>
  \<^verbatim>\<open>validate_video_asset\<close>: present, at least 10 KiB, and a probed duration of at least one
  second (a probe that fails counts as invalid, as the duration 0.0 does).
\<close>

definition validate_video_asset :: "env \<Rightarrow> fsys \<Rightarrow> path \<Rightarrow> bool" where
  "validate_video_asset e fs p =
     (case fs p of
        None \<Rightarrow> False
      | Some f \<Rightarrow> \<not> getsize f < 10 * 1024 \<and> \<not> get_duration e fs p < 1)"

definition check_dir :: "orch \<Rightarrow> path" where
  "check_dir orc =
     (case scenes_shorts (pm_of orc) of
        Some d \<Rightarrow> (if shorts_mode orc then d else scenes_dir (pm_of orc))
      | None \<Rightarrow> scenes_dir (pm_of orc))"

text \<open>\<^verbatim>\<open>validate_scene_videos\<close>: the numbers from 1 to the scene count whose video is invalid.\<close>

definition missing_scene_videos :: "env \<Rightarrow> orch \<Rightarrow> fsys \<Rightarrow> nat list" where
  "missing_scene_videos e orc fs =
     filter (\<lambda>i. \<not> validate_video_asset e fs
                   (path_join (check_dir orc) (''scene_'' @ fmt_0d 3 (int i) @ ''.mp4'')))
       [1 ..< Suc (length (scenes orc))]"

fun render_loop :: "env \<Rightarrow> orch \<Rightarrow> scene list \<Rightarrow> nat \<Rightarrow> world \<Rightarrow> nat outcome \<times> world" where
  "render_loop e orc [] success w = (Returned success, w)"
| "render_loop e orc (s # ss) success w =
     (case render_scene e orc (scene_id s) w of
        (Raised, w1) \<Rightarrow> (Raised, w1)
      | (Returned ok, w1) \<Rightarrow> render_loop e orc ss (if ok then Suc success else success) w1)"

text \<open>
  \<^verbatim>\<open>render_all\<close>: the script is reloaded when there are no scenes; the scene files are
  renamed to the expected names and checked, and a missing video ends the phase with
  False before anything is rendered; then every scene is rendered in turn and the
  successes are counted. \<^verbatim>\<open>normalize_scene_files\<close> lists the scenes directory and
  copies files with other names to the expected ones: what it does to the files is a
  parameter here, so that a statement about \<open>render_all\<close> holds whatever it copies.
\<close>

definition render_all ::
  "env \<Rightarrow> (orch \<Rightarrow> fsys \<Rightarrow> fsys) \<Rightarrow> orch \<Rightarrow> world \<Rightarrow> bool outcome \<times> world" where
  "render_all e normalize_scene_files orc w =
     (let orc1 = (if scenes orc = [] then load_existing_script e orc (files w) else orc);
          w1 = w\<lparr>files := normalize_scene_files orc1 (files w)\<rparr>
      in if missing_scene_videos e orc1 (files w1) \<noteq> [] then (Returned False, w1)
         else
           (case render_loop e orc1 (scenes orc1) 0 w1 of
              (Raised, w2) \<Rightarrow> (Raised, w2)
            | (Returned success, w2) \<Rightarrow> (Returned (success = length (scenes orc1)), w2)))"

section \<open>The end-card overlay (BibleOrchestrator.\_apply\_universal\_cta)\<close>

text \<open>
  \<^verbatim>\<open>shutil.rmtree(d, ignore_errors=True)\<close>: every file below the directory goes.
\<close>

definition rmtree :: "fsys \<Rightarrow> path \<Rightarrow> fsys" where
  "rmtree fs d = (\<lambda>p. if take (Suc (length d)) p = d @ ''/'' then None else fs p)"

definition cta_path :: path where
  "cta_path = path_join (path_join (path_join ''data'' ''assets'') ''cta'') ''veo_cta.mp4''"

definition cta_output_path :: "path \<Rightarrow> path" where
  "cta_output_path video_path = str_replace video_path ''.mp4'' ''_cta.mp4''"

text \<open>The overlay request: the window starts 5 seconds before the end, at 0 at the earliest.\<close>

definition cta_request :: "env \<Rightarrow> path \<Rightarrow> bool \<Rightarrow> fsys \<Rightarrow> cmd" where
  "cta_request e video_path is_shorts fs =
     (let duration = get_duration e fs video_path;
          start_time = max 0 (fl (duration - 5));
          scale_w = (if is_shorts then 860 else 640);
          y_pos = (if is_shorts then ''H-h-550'' else ''H-h-140'')
      in Cta_overlay video_path cta_path start_time duration scale_w y_pos
           (cta_output_path video_path))"

text \<open>
  The whole body after the check of the asset is inside \<^verbatim>\<open>try ... except Exception\<close>:
  an exception of the engine call, or of \<^verbatim>\<open>shutil.move\<close> when the engine reported
  success and left no output file, ends in the handler, which returns the input path.
\<close>

definition apply_universal_cta :: "env \<Rightarrow> path \<Rightarrow> bool \<Rightarrow> world \<Rightarrow> path \<times> world" where
  "apply_universal_cta e video_path is_shorts w =
     (if \<not> exists_path (files w) cta_path then (video_path, w)
      else
        (case run_cmd e (cta_request e video_path is_shorts (files w)) w of
           (Ran_ok, w1) \<Rightarrow>
             (if exists_path (files w1) (cta_output_path video_path)
              then (video_path,
                    w1\<lparr>files := os_rename (files w1) (cta_output_path video_path) video_path\<rparr>)
              else (video_path, w1))
         | (Ran_failed, w1) \<Rightarrow>
             (video_path,
              if exists_path (files w1) (cta_output_path video_path)
              then w1\<lparr>files := os_remove (files w1) (cta_output_path video_path)\<rparr> else w1)
         | (Ran_raised, w1) \<Rightarrow> (video_path, w1)))"

section \<open>Phase 5: merging the clips (BibleOrchestrator.merge\_clips)\<close>

definition render_dir :: "orch \<Rightarrow> path" where
  "render_dir orc =
     (case clips_shorts (pm_of orc) of
        Some d \<Rightarrow> (if shorts_mode orc then d else rendered (pm_of orc))
      | None \<Rightarrow> rendered (pm_of orc))"

definition merge_output :: "orch \<Rightarrow> path" where
  "merge_output orc =
     (case chapter_shorts_video (pm_of orc) of
        Some v \<Rightarrow> (if shorts_mode orc then v else final_video (pm_of orc))
      | None \<Rightarrow> final_video (pm_of orc))"

text \<open>The concat list is built from the clips that exist with more than 1024 bytes.\<close>

definition clip_ids :: "orch \<Rightarrow> fsys \<Rightarrow> int list" where
  "clip_ids orc fs =
     map scene_id
       (filter (\<lambda>s. exists_path fs (get_clip_path (pm_of orc) (scene_id s) (shorts_mode orc)) \<and>
                    size_gt fs (get_clip_path (pm_of orc) (scene_id s) (shorts_mode orc)) 1024)
          (scenes orc))"

definition norm_clip_name :: "int \<Rightarrow> string" where
  "norm_clip_name idx = ''clip_'' @ fmt_0d 3 idx @ ''.mp4''"

definition concat_line :: "int \<Rightarrow> string" where
  "concat_line idx = ''file '' @ [CHR 0x27] @ norm_clip_name idx @ [CHR 0x27]"

fun normalize_clips :: "env \<Rightarrow> orch \<Rightarrow> path \<Rightarrow> int list \<Rightarrow> world \<Rightarrow> bool outcome \<times> world" where
  "normalize_clips e orc norm_dir [] w = (Returned True, w)"
| "normalize_clips e orc norm_dir (idx # rest) w =
     (case run_cmd e
             (Normalize_audio (get_clip_path (pm_of orc) idx (shorts_mode orc))
                (path_join norm_dir (norm_clip_name idx))) w of
        (Ran_raised, w1) \<Rightarrow> (Raised, w1)
      | (Ran_failed, w1) \<Rightarrow> (Returned False, w1)
      | (Ran_ok, w1) \<Rightarrow> normalize_clips e orc norm_dir rest w1)"

definition merge_clips :: "env \<Rightarrow> orch \<Rightarrow> world \<Rightarrow> path option outcome \<times> world" where
  "merge_clips e orc w =
     (let ids = clip_ids orc (files w)
      in if ids = [] then (Returned None, w)
         else
           (let norm_dir = path_join (render_dir orc) ''_normalized''
            in case normalize_clips e orc norm_dir (sort ids) w of
                 (Raised, w1) \<Rightarrow> (Raised, w1)
               | (Returned False, w1) \<Rightarrow> (Returned None, w1)
               | (Returned True, w1) \<Rightarrow>
                   (let norm_concat = path_join norm_dir ''concat_list.txt'';
                        ls = map concat_line (sort ids);
                        w2 = w1\<lparr>files := (files w1)(norm_concat \<mapsto> Lines ls)\<rparr>;
                        output = merge_output orc
                    in case run_cmd e (Concat_demux ls norm_concat output) w2 of
                         (Ran_raised, w3) \<Rightarrow> (Raised, w3)
                       | (Ran_failed, w3) \<Rightarrow> (Returned None, w3)
                       | (Ran_ok, w3) \<Rightarrow>
                           (let w4 = w3\<lparr>files := rmtree (files w3) norm_dir\<rparr>
                            in if shorts_mode orc \<or> chapter_idx (pm_of orc) = Some 0
                               then (case apply_universal_cta e output (shorts_mode orc) w4 of
                                       (out, w5) \<Rightarrow> (Returned (Some out), w5))
                               else (Returned (Some output), w4)))))"

section \<open>Intro auto-assembly: the scene matcher\<close>

subsection \<open>Scoring (\_extract\_keywords, \_scene\_match\_score)\<close>

text \<open>
  Two functions of Python's library are parameters: the similarity ratio of
  \<^verbatim>\<open>difflib.SequenceMatcher(None, a, b)\<close>, a float, and \<^verbatim>\<open>str.lower\<close>.
\<close>

record pylib =
  seq_ratio :: "utext \<Rightarrow> utext \<Rightarrow> rat"
  str_lower :: "utext \<Rightarrow> utext"

definition is_az :: "nat \<Rightarrow> bool" where
  "is_az c = (97 \<le> c \<and> c \<le> 122)"

text \<open>\<^verbatim>\<open>re.findall(r'[a-z]+', s)\<close>: the maximal runs of the letters a to z, in order.\<close>

fun findall_az :: "utext \<Rightarrow> utext \<Rightarrow> utext list" where
  "findall_az cur [] = (if cur = [] then [] else [cur])"
| "findall_az cur (c # cs) =
     (if is_az c then findall_az (cur @ [c]) cs
      else (if cur = [] then [] else [cur]) @ findall_az [] cs)"

definition stop_words :: "utext list" where
  "stop_words = map utext_of
     [''the'', ''a'', ''an'', ''is'', ''are'', ''was'', ''were'', ''be'', ''been'',
      ''being'', ''have'', ''has'', ''had'', ''do'', ''does'', ''did'', ''will'',
      ''would'', ''could'', ''should'', ''may'', ''might'', ''shall'', ''can'',
      ''to'', ''of'', ''in'', ''for'', ''on'', ''with'', ''at'', ''by'', ''from'',
      ''and'', ''or'', ''but'', ''not'', ''no'', ''nor'', ''so'', ''yet'',
      ''as'', ''if'', ''then'', ''than'', ''that'', ''this'', ''these'', ''those'',
      ''his'', ''her'', ''its'', ''their'', ''your'', ''our'', ''my'',
      ''he'', ''she'', ''it'', ''they'', ''we'', ''you'', ''i'',
      ''him'', ''them'', ''us'', ''me'', ''who'', ''whom'', ''which'',
      ''what'', ''where'', ''when'', ''how'', ''why'',
      ''all'', ''each'', ''every'', ''both'', ''few'', ''more'',
      ''other'', ''some'', ''such'', ''only'', ''own'', ''same'',
      ''up'', ''out'', ''off'', ''over'', ''under'', ''into'',
      ''about'', ''between'', ''through'', ''during'', ''before'', ''after'',
      ''pixar'', ''disney'', ''3d'', ''animation'', ''rendered'', ''style'',
      ''quality'', ''detailed'', ''ultra'', ''4k'', ''cinematic'',
      ''shot'', ''medium'', ''close'', ''wide'', ''angle'', ''camera'']"

definition prompt_get :: "(string \<times> utext) list \<Rightarrow> string \<Rightarrow> utext" where
  "prompt_get prompt k = (case map_of prompt k of None \<Rightarrow> [] | Some v \<Rightarrow> v)"

definition extract_keywords :: "pylib \<Rightarrow> (string \<times> utext) list \<Rightarrow> utext \<Rightarrow> utext set" where
  "extract_keywords lib prompt narr =
     (let full_text =
            str_lower lib
              (narr @ [32] @ prompt_get prompt ''objects'' @ [32] @
               prompt_get prompt ''action'' @ [32] @ prompt_get prompt ''atmosphere'')
      in set (filter (\<lambda>w. 2 < length w \<and> w \<notin> set stop_words) (findall_az [] full_text)))"

text \<open>
  Jaccard similarity as the source computes it: the quotient of two integers, a float.
\<close>

definition jaccard :: "'a set \<Rightarrow> 'a set \<Rightarrow> rat" where
  "jaccard A B =
     (if 0 < card (A \<union> B) then fl (of_nat (card (A \<inter> B)) / of_nat (card (A \<union> B))) else 0)"

definition scene_match_score ::
  "pylib \<Rightarrow> utext \<Rightarrow> utext list \<Rightarrow> (string \<times> utext) list \<Rightarrow>
   utext \<Rightarrow> utext list \<Rightarrow> (string \<times> utext) list \<Rightarrow> rat" where
  "scene_match_score lib intro_narr intro_chars intro_prompt src_narr src_chars src_prompt =
     (let text_sim = seq_ratio lib (str_lower lib intro_narr) (str_lower lib src_narr);
          score1 = fl (0 + fl (text_sim * fl (4 / 10)));
          intro_char_set = set (map (str_lower lib) intro_chars);
          src_char_set = set (map (str_lower lib) src_chars);
          score2 =
            (if intro_char_set \<noteq> {} \<and> src_char_set \<noteq> {}
             then fl (score1 + fl (jaccard intro_char_set src_char_set * fl (25 / 100)))
             else if intro_char_set = {} \<and> src_char_set = {} then fl (score1 + fl (1 / 10))
             else score1);
          intro_keywords = extract_keywords lib intro_prompt intro_narr;
          src_keywords = extract_keywords lib src_prompt src_narr
      in if intro_keywords \<noteq> {} \<and> src_keywords \<noteq> {}
         then fl (score2 + fl (jaccard intro_keywords src_keywords * fl (35 / 100)))
         else score2)"

subsection \<open>The project and the source catalog\<close>

record chapter_info =
  ch_index :: int
  ch_slug :: string
  ch_title :: string

record proj =
  proj_root :: path
  chapters :: "chapter_info list"

definition get_chapter :: "proj \<Rightarrow> int \<Rightarrow> chapter_info option" where
  "get_chapter pj idx = find (\<lambda>ch. ch_index ch = idx) (chapters pj)"

definition chapter_dir :: "path \<Rightarrow> int \<Rightarrow> string \<Rightarrow> path" where
  "chapter_dir rt idx slug = path_join rt (''ch'' @ fmt_0d 2 idx @ ''_'' @ slug)"

definition get_chapter_pm :: "proj \<Rightarrow> int \<Rightarrow> pm option" where
  "get_chapter_pm pj idx =
     (case get_chapter pj idx of
        None \<Rightarrow> None
      | Some ch \<Rightarrow>
          Some (ChapterPathManager (chapter_dir (proj_root pj) (ch_index ch) (ch_slug ch))
                  (ch_index ch)))"

record source =
  src_chapter_idx :: int
  src_chapter_slug :: string
  src_chapter_title :: string
  src_scene_id :: int
  src_narration :: utext
  src_characters :: "utext list"
  src_video_prompt :: "(string \<times> utext) list"
  path_manager :: pm

definition excluded_chapters :: "int set" where
  "excluded_chapters = {12}"

text \<open>
  \<^verbatim>\<open>d.get("scenes", [])\<close> on a loaded script: an \<^verbatim>\<open>AttributeError\<close> for a value that
  is no dict.
\<close>

fun scenes_of :: "script_data \<Rightarrow> scene list option" where
  "scenes_of (Script ss) = Some ss"
| "scenes_of Empty_dict = Some []"
| "scenes_of Py_none = None"
| "scenes_of (Non_dict t) = None"

text \<open>
  The catalog loop; a scene enters the catalog when its video exists. Loading a chapter's
  script is not guarded: an exception leaves \<open>assemble_intro\<close>.
\<close>

fun build_catalog ::
  "env \<Rightarrow> proj \<Rightarrow> fsys \<Rightarrow> chapter_info list \<Rightarrow>
   source list \<times> (int \<rightharpoonup> pm) \<Rightarrow> (source list \<times> (int \<rightharpoonup> pm)) outcome" where
  "build_catalog e pj fs [] acc = Returned acc"
| "build_catalog e pj fs (ch # chs) (source_catalog, chapter_pms) =
     (if ch_index ch = 0 \<or> ch_index ch \<in> excluded_chapters
      then build_catalog e pj fs chs (source_catalog, chapter_pms)
      else
        (case get_chapter_pm pj (ch_index ch) of
           None \<Rightarrow> build_catalog e pj fs chs (source_catalog, chapter_pms)
         | Some ch_pm \<Rightarrow>
             (if \<not> exists_path fs (script_file ch_pm)
              then build_catalog e pj fs chs
                     (source_catalog, chapter_pms(ch_index ch \<mapsto> ch_pm))
              else
                (case json_load e fs (script_file ch_pm) of
                   None \<Rightarrow> Raised
                 | Some ch_script \<Rightarrow>
                     (case scenes_of ch_script of
                        None \<Rightarrow> Raised
                      | Some ss \<Rightarrow>
                          build_catalog e pj fs chs
                            (source_catalog @
                               map (\<lambda>sc. \<lparr>src_chapter_idx = ch_index ch,
                                           src_chapter_slug = ch_slug ch,
                                           src_chapter_title = ch_title ch,
                                           src_scene_id = scene_id sc,
                                           src_narration = narration sc,
                                           src_characters = characters sc,
                                           src_video_prompt = video_prompt sc,
                                           path_manager = ch_pm\<rparr>)
                                 (filter (\<lambda>sc. exists_path fs
                                                  (get_scene_video_path ch_pm (scene_id sc) False))
                                    ss),
                             chapter_pms(ch_index ch \<mapsto> ch_pm)))))))"

subsection \<open>Assignment (BibleOrchestrator.assemble\_intro)\<close>

text \<open>
  An entry of \<^verbatim>\<open>intro_manual_map.json\<close> with its keys \<^verbatim>\<open>intro_scene\<close>,
  \<^verbatim>\<open>source_chapter\<close>, \<^verbatim>\<open>source_scene\<close> and the optional \<^verbatim>\<open>reason\<close>; the file is absent,
  a list of such entries, or something that makes loading it raise.
\<close>

record manual_entry =
  me_intro_scene :: int
  me_source_chapter :: int
  me_source_scene :: int
  me_reason :: "utext option"

datatype manual_file = No_manual_file | Manual_entries "manual_entry list" | Bad_manual_file

definition manual_map_of :: "manual_entry list \<Rightarrow> (int \<rightharpoonup> manual_entry)" where
  "manual_map_of entries = fold (\<lambda>entry m. m(me_intro_scene entry \<mapsto> entry)) entries Map.empty"

text \<open>One object of \<^verbatim>\<open>intro_assembly_map.json\<close>; a key that the branch does not write is \<open>None\<close>.\<close>

record match_record =
  mr_intro_scene :: int
  mr_intro_narration :: utext
  mr_source_chapter :: int
  mr_source_chapter_title :: "string option"
  mr_source_scene :: int
  mr_source_narration :: "utext option"
  mr_reason :: "utext option"
  mr_score :: "rat option"
  mr_method :: string

record asm_state =
  mapping :: "match_record list"
  used_sources :: "(int \<times> int) set"
  disk :: fsys

text \<open>
  \<^verbatim>\<open>shutil.copy2\<close> raises when the source is missing or is the destination itself.
\<close>

definition copy2 :: "fsys \<Rightarrow> path \<Rightarrow> path \<Rightarrow> fsys option" where
  "copy2 fs src dst =
     (case fs src of
        None \<Rightarrow> None
      | Some f \<Rightarrow> (if src = dst then None else Some (fs(dst \<mapsto> f))))"

definition penalized_score :: "pylib \<Rightarrow> (int \<times> int) set \<Rightarrow> scene \<Rightarrow> source \<Rightarrow> rat" where
  "penalized_score lib used intro_scene src =
     fl (scene_match_score lib (narration intro_scene) (characters intro_scene)
           (video_prompt intro_scene) (src_narration src) (src_characters src)
           (src_video_prompt src)
         - (if (src_chapter_idx src, src_scene_id src) \<in> used then fl (3 / 10) else 0))"

fun best_match :: "(source \<Rightarrow> rat) \<Rightarrow> source list \<Rightarrow> rat \<times> source option \<Rightarrow> rat \<times> source option" where
  "best_match sc [] best = best"
| "best_match sc (src # rest) (best_score, best_source) =
     (if sc src > best_score then best_match sc rest (sc src, Some src)
      else best_match sc rest (best_score, best_source))"

text \<open>The video a manual entry refers to, when a path manager is found for its chapter.\<close>

definition manual_source_video :: "proj \<Rightarrow> (int \<rightharpoonup> pm) \<Rightarrow> manual_entry \<Rightarrow> path option" where
  "manual_source_video pj chapter_pms entry =
     (case (case chapter_pms (me_source_chapter entry) of
              Some ch_pm \<Rightarrow> Some ch_pm
            | None \<Rightarrow> get_chapter_pm pj (me_source_chapter entry)) of
        None \<Rightarrow> None
      | Some ch_pm \<Rightarrow> Some (get_scene_video_path ch_pm (me_source_scene entry) False))"

definition auto_record :: "scene \<Rightarrow> source \<Rightarrow> rat \<Rightarrow> match_record" where
  "auto_record intro_scene best_source best_score =
     \<lparr>mr_intro_scene = scene_id intro_scene,
      mr_intro_narration = take 80 (narration intro_scene),
      mr_source_chapter = src_chapter_idx best_source,
      mr_source_chapter_title = Some (src_chapter_title best_source),
      mr_source_scene = src_scene_id best_source,
      mr_source_narration = Some (take 80 (src_narration best_source)),
      mr_reason = None,
      mr_score = Some (round3 best_score),
      mr_method = ''auto''\<rparr>"

definition manual_record :: "scene \<Rightarrow> manual_entry \<Rightarrow> match_record" where
  "manual_record intro_scene entry =
     \<lparr>mr_intro_scene = scene_id intro_scene,
      mr_intro_narration = take 80 (narration intro_scene),
      mr_source_chapter = me_source_chapter entry,
      mr_source_chapter_title = None,
      mr_source_scene = me_source_scene entry,
      mr_source_narration = None,
      mr_reason =
        Some (case me_reason entry of None \<Rightarrow> utext_of ''manual override'' | Some r \<Rightarrow> r),
      mr_score = None,
      mr_method = ''manual''\<rparr>"

text \<open>Priority 2 of the loop body: automatic matching over the catalog.\<close>

definition auto_match ::
  "pylib \<Rightarrow> pm \<Rightarrow> source list \<Rightarrow> scene \<Rightarrow> asm_state \<Rightarrow> asm_state outcome" where
  "auto_match lib self_pm source_catalog intro_scene st =
     (case best_match (penalized_score lib (used_sources st) intro_scene) source_catalog (- 1, None) of
        (best_score, None) \<Rightarrow> Returned st
      | (best_score, Some best_source) \<Rightarrow>
          (case copy2 (disk st)
                  (get_scene_video_path (path_manager best_source) (src_scene_id best_source) False)
                  (get_scene_video_path self_pm (scene_id intro_scene) False) of
             None \<Rightarrow> Raised
           | Some fs' \<Rightarrow>
               Returned
                 \<lparr>mapping = mapping st @ [auto_record intro_scene best_source best_score],
                  used_sources =
                    insert (src_chapter_idx best_source, src_scene_id best_source) (used_sources st),
                  disk = fs'\<rparr>))"

text \<open>The loop body: priority 1 is the manual map, with automatic matching as the fallback.\<close>

definition assemble_slot ::
  "pylib \<Rightarrow> proj \<Rightarrow> pm \<Rightarrow> (int \<rightharpoonup> manual_entry) \<Rightarrow> (int \<rightharpoonup> pm) \<Rightarrow>
   source list \<Rightarrow> scene \<Rightarrow> asm_state \<Rightarrow> asm_state outcome" where
  "assemble_slot lib pj self_pm manual_map chapter_pms source_catalog intro_scene st =
     (case manual_map (scene_id intro_scene) of
        None \<Rightarrow> auto_match lib self_pm source_catalog intro_scene st
      | Some entry \<Rightarrow>
          (case manual_source_video pj chapter_pms entry of
             None \<Rightarrow> auto_match lib self_pm source_catalog intro_scene st
           | Some src_video \<Rightarrow>
               (if exists_path (disk st) src_video then
                  (case copy2 (disk st) src_video
                          (get_scene_video_path self_pm (scene_id intro_scene) False) of
                     None \<Rightarrow> Raised
                   | Some fs' \<Rightarrow>
                       Returned
                         \<lparr>mapping = mapping st @ [manual_record intro_scene entry],
                          used_sources =
                            insert (me_source_chapter entry, me_source_scene entry) (used_sources st),
                          disk = fs'\<rparr>)
                else auto_match lib self_pm source_catalog intro_scene st)))"

fun assemble_loop ::
  "pylib \<Rightarrow> proj \<Rightarrow> pm \<Rightarrow> (int \<rightharpoonup> manual_entry) \<Rightarrow> (int \<rightharpoonup> pm) \<Rightarrow>
   source list \<Rightarrow> scene list \<Rightarrow> asm_state \<Rightarrow> asm_state outcome" where
  "assemble_loop lib pj self_pm manual_map chapter_pms source_catalog [] st = Returned st"
| "assemble_loop lib pj self_pm manual_map chapter_pms source_catalog (intro_scene # rest) st =
     (case assemble_slot lib pj self_pm manual_map chapter_pms source_catalog intro_scene st of
        Raised \<Rightarrow> Raised
      | Returned st' \<Rightarrow>
          assemble_loop lib pj self_pm manual_map chapter_pms source_catalog rest st')"

fun truthy :: "script_data \<Rightarrow> bool" where
  "truthy Py_none = False"
| "truthy Empty_dict = False"
| "truthy (Script ss) = True"
| "truthy (Non_dict t) = t"

text \<open>
  The whole run. The result is the return value with the mapping written to
  \<^verbatim>\<open>intro_assembly_map.json\<close>; nothing is written when the script has no scenes. The script
  is reloaded when \<^verbatim>\<open>script_data\<close> is false, and reading the scenes of a value that is no
  dict raises.
\<close>

definition assemble_intro ::
  "env \<Rightarrow> pylib \<Rightarrow> manual_file \<Rightarrow> proj \<Rightarrow> orch \<Rightarrow> fsys \<Rightarrow>
   (bool \<times> match_record list option) outcome" where
  "assemble_intro e lib manual pj orc fs =
     (let orc1 = (if \<not> truthy (script_data orc) then load_existing_script e orc fs else orc)
      in case scenes_of (script_data orc1) of
           None \<Rightarrow> Raised
         | Some intro_scenes \<Rightarrow>
             (if intro_scenes = [] then Returned (False, None)
              else
                (case manual of
                   Bad_manual_file \<Rightarrow> Raised
                 | _ \<Rightarrow>
                   (case build_catalog e pj fs (chapters pj) ([], Map.empty) of
                      Raised \<Rightarrow> Raised
                    | Returned (source_catalog, chapter_pms) \<Rightarrow>
                        (case assemble_loop lib pj (pm_of orc) 
                                (case manual of Manual_entries es \<Rightarrow> manual_map_of es
                                              | _ \<Rightarrow> Map.empty)
                                chapter_pms source_catalog intro_scenes
                                \<lparr>mapping = [], used_sources = {}, disk = fs\<rparr> of
                           Raised \<Rightarrow> Raised
                         | Returned st \<Rightarrow> Returned (True, Some (mapping st)))))))"

section \<open>Concrete inputs\<close>

text \<open>
  A chapter at \<^verbatim>\<open>/p\<close>, scenes without text, and an engine whose passes end as its three
  arguments say (base pass, subtitle pass, overlay pass); a pass that runs writes its
  output file, normalization and concatenation always succeed. The probe reports the
  given duration for a video below \<^verbatim>\<open>scenes/\<close> and the other duration (8 seconds in
  \<open>ex_env\<close>) for anything else.
\<close>

definition ex_pm :: pm where
  "ex_pm = ChapterPathManager ''/p'' 1"

definition ex_scene :: "int \<Rightarrow> string option \<Rightarrow> scene" where
  "ex_scene i prio =
     \<lparr>scene_id = i, narration = [], characters = [], video_prompt = [],
      audio_priority = prio, skip_tts = False\<rparr>"

definition ex_orc :: "string option \<Rightarrow> orch" where
  "ex_orc prio =
     \<lparr>pm_of = ex_pm, scenes = [ex_scene 1 prio, ex_scene 2 None], shorts_mode = False,
      script_data = Script [ex_scene 1 prio, ex_scene 2 None]\<rparr>"

definition ex_write :: "run_result \<Rightarrow> path \<Rightarrow> nat \<Rightarrow> fsys \<Rightarrow> run_result \<times> fsys" where
  "ex_write r out n fs = (r, if r = Ran_raised then fs else fs(out \<mapsto> Blob n 7))"

fun ex_engine :: "run_result \<Rightarrow> run_result \<Rightarrow> run_result \<Rightarrow> cmd \<Rightarrow> fsys \<Rightarrow> run_result \<times> fsys" where
  "ex_engine b s c (Veo_render v tw th out) fs = ex_write b out 5000000 fs"
| "ex_engine b s c (Mix_render v a tw th out) fs = ex_write b out 5000000 fs"
| "ex_engine b s c (Tts_render v a f m d tw th out) fs = ex_write b out 5000000 fs"
| "ex_engine b s c (Subtitle_burn t v out) fs = ex_write s out 4000000 fs"
| "ex_engine b s c (Normalize_audio src out) fs = ex_write Ran_ok out 3000000 fs"
| "ex_engine b s c (Concat_demux ls lf out) fs = ex_write Ran_ok out 9000000 fs"
| "ex_engine b s c (Cta_overlay v a st d sw y out) fs = ex_write c out 9500000 fs"

definition ex_probe :: "rat \<Rightarrow> rat \<Rightarrow> fsys \<Rightarrow> path \<Rightarrow> rat" where
  "ex_probe v a fs p = (if take 10 p = ''/p/scenes/'' then v else a)"

definition ex_env_dur :: "run_result \<Rightarrow> run_result \<Rightarrow> run_result \<Rightarrow> rat \<Rightarrow> rat \<Rightarrow> env" where
  "ex_env_dur b s c v a =
     \<lparr>engine = ex_engine b s c, get_duration = ex_probe v a, json_load = (\<lambda>fs p. None)\<rparr>"

definition ex_env :: "run_result \<Rightarrow> run_result \<Rightarrow> run_result \<Rightarrow> rat \<Rightarrow> env" where
  "ex_env b s c v = ex_env_dur b s c v 8"

definition ex_world :: "(path \<times> nat) list \<Rightarrow> world" where
  "ex_world sizes = \<lparr>files = map_of (map (\<lambda>(p, n). (p, Blob n 0)) sizes), trace = []\<rparr>"

text \<open>A scene video with its narration, without and with a caption file.\<close>

definition ex_inputs :: world where
  "ex_inputs =
     ex_world [(''/p/scenes/scene_001.mp4'', 3000000), (''/p/assets/audio_001.mp3'', 50000)]"

definition ex_inputs_vtt :: world where
  "ex_inputs_vtt =
     ex_world [(''/p/scenes/scene_001.mp4'', 3000000), (''/p/assets/audio_001.mp3'', 50000),
               (''/p/assets/audio_001.vtt'', 200)]"

text \<open>Both scenes of the chapter with their videos and narrations.\<close>

definition ex_chapter_inputs :: world where
  "ex_chapter_inputs =
     ex_world [(''/p/scenes/scene_001.mp4'', 3000000), (''/p/assets/audio_001.mp3'', 50000),
               (''/p/scenes/scene_002.mp4'', 3000000), (''/p/assets/audio_002.mp3'', 50000)]"

text \<open>
  A project with an intro (chapter 0), one produced chapter and the outro. The produced
  chapter has two scenes with videos; the intro has two slots. Characters and keywords
  of all of them agree, so that the raw score of a candidate for a slot is
  \<open>0.4 * ratio + 0.25 + 0.35\<close>, and the stand-in for the similarity ratio gives 0.625 (or
  the given value) for the second candidate and 0 for the first.
\<close>

definition ex_text_scene :: "int \<Rightarrow> string \<Rightarrow> scene" where
  "ex_text_scene i narr =
     \<lparr>scene_id = i, narration = utext_of narr, characters = [utext_of ''DAVID''],
      video_prompt = [], audio_priority = None, skip_tts = False\<rparr>"

definition ex_lib :: "rat \<Rightarrow> pylib" where
  "ex_lib r =
     \<lparr>seq_ratio = (\<lambda>a b. if b = utext_of ''giant b'' then r else 0),
      str_lower = map (\<lambda>c. if 65 \<le> c \<and> c \<le> 90 then c + 32 else c)\<rparr>"

definition ex_proj :: proj where
  "ex_proj =
     \<lparr>proj_root = ''/p'',
      chapters = [\<lparr>ch_index = 0, ch_slug = ''intro'', ch_title = ''Intro''\<rparr>,
                  \<lparr>ch_index = 1, ch_slug = ''a'', ch_title = ''A''\<rparr>,
                  \<lparr>ch_index = 12, ch_slug = ''outro'', ch_title = ''Outro''\<rparr>]\<rparr>"

definition ex_intro_orc :: orch where
  "ex_intro_orc =
     \<lparr>pm_of = ChapterPathManager ''/p/ch00_intro'' 0,
      scenes = [ex_text_scene 1 ''giant'', ex_text_scene 2 ''giant''], shorts_mode = False,
      script_data = Script [ex_text_scene 1 ''giant'', ex_text_scene 2 ''giant'']\<rparr>"

definition ex_disk :: fsys where
  "ex_disk =
     map_of [(''/p/ch01_a/script.json'', Blob 900 1),
             (''/p/ch01_a/scenes/scene_001.mp4'', Blob 3000000 2),
             (''/p/ch01_a/scenes/scene_002.mp4'', Blob 3000000 3)]"

definition ex_json_env :: env where
  "ex_json_env =
     \<lparr>engine = ex_engine Ran_ok Ran_ok Ran_ok, get_duration = ex_probe 5 8,
      json_load = (\<lambda>fs p. if p = ''/p/ch01_a/script.json''
                           then Some (Script [ex_text_scene 1 ''giant a'', ex_text_scene 2 ''giant b''])
                           else None)\<rparr>"

text \<open>The curator's entry for the first slot: scene 2 of chapter 1.\<close>

definition ex_manual :: manual_file where
  "ex_manual =
     Manual_entries
       [\<lparr>me_intro_scene = 1, me_source_chapter = 1, me_source_scene = 2, me_reason = None\<rparr>]"

text \<open>An engine that fails every request writing the temp file of scene 1 and no other.\<close>

fun cmd_output :: "cmd \<Rightarrow> path" where
  "cmd_output (Veo_render v tw th out) = out"
| "cmd_output (Mix_render v a tw th out) = out"
| "cmd_output (Tts_render v a f m d tw th out) = out"
| "cmd_output (Subtitle_burn t v out) = out"
| "cmd_output (Normalize_audio src out) = out"
| "cmd_output (Concat_demux ls lf out) = out"
| "cmd_output (Cta_overlay v a st d sw y out) = out"

definition ex_env_first_fails :: env where
  "ex_env_first_fails =
     \<lparr>engine = (\<lambda>c fs. ex_write (if cmd_output c = ''/p/clips/clip_001_temp.mp4''
                                   then Ran_failed else Ran_ok) (cmd_output c) 5000000 fs),
      get_duration = ex_probe 5 8, json_load = (\<lambda>fs p. None)\<rparr>"

section \<open>The paths of a scene\<close>

abbreviation video_of :: "orch \<Rightarrow> int \<Rightarrow> path" where
  "video_of orc sid \<equiv> get_scene_video_path (pm_of orc) sid (shorts_mode orc)"

abbreviation audio_of :: "orch \<Rightarrow> int \<Rightarrow> path" where
  "audio_of orc sid \<equiv> get_audio_path (pm_of orc) sid"

abbreviation vtt_of :: "orch \<Rightarrow> int \<Rightarrow> path" where
  "vtt_of orc sid \<equiv> get_vtt_path (pm_of orc) sid"

abbreviation clip_of :: "orch \<Rightarrow> int \<Rightarrow> path" where
  "clip_of orc sid \<equiv> get_clip_path (pm_of orc) sid (shorts_mode orc)"

abbreviation temp_of :: "orch \<Rightarrow> int \<Rightarrow> path" where
  "temp_of orc sid \<equiv> str_replace (clip_of orc sid) ''.mp4'' ''_temp.mp4''"

abbreviation burn_of :: "orch \<Rightarrow> int \<Rightarrow> cmd" where
  "burn_of orc sid \<equiv> Subtitle_burn (temp_of orc sid) (vtt_of orc sid) (clip_of orc sid)"

section \<open>Evaluating the concrete paths\<close>

lemmas path_eval =
  get_clip_path_def get_scene_video_path_def get_audio_path_def get_vtt_path_def
  path_join_def clips_def rendered_def scenes_dir_def assets_def fmt_0d_def zero_pad_def
  str_nat.simps eval_nat_numeral ex_pm_def str_replace_def

lemma ex_clip_path: "get_clip_path ex_pm 1 False = ''/p/clips/clip_001.mp4''"
  by (simp add: path_eval)

lemma ex_clip_path2: "get_clip_path ex_pm 2 False = ''/p/clips/clip_002.mp4''"
  by (simp add: path_eval)

lemma ex_video_path: "get_scene_video_path ex_pm 1 False = ''/p/scenes/scene_001.mp4''"
  by (simp add: path_eval)

lemma ex_video_path2: "get_scene_video_path ex_pm 2 False = ''/p/scenes/scene_002.mp4''"
  by (simp add: path_eval)

lemma ex_audio_path: "get_audio_path ex_pm 1 = ''/p/assets/audio_001.mp3''"
  by (simp add: path_eval)

lemma ex_audio_path2: "get_audio_path ex_pm 2 = ''/p/assets/audio_002.mp3''"
  by (simp add: path_eval)

lemma ex_vtt_path: "get_vtt_path ex_pm 1 = ''/p/assets/audio_001.vtt''"
  by (simp add: path_eval)

lemma ex_vtt_path2: "get_vtt_path ex_pm 2 = ''/p/assets/audio_002.vtt''"
  by (simp add: path_eval)

lemma ex_temp_path:
  "str_replace ''/p/clips/clip_001.mp4'' ''.mp4'' ''_temp.mp4'' = ''/p/clips/clip_001_temp.mp4''"
  by (simp add: str_replace_def)

lemma ex_temp_path2:
  "str_replace ''/p/clips/clip_002.mp4'' ''.mp4'' ''_temp.mp4'' = ''/p/clips/clip_002_temp.mp4''"
  by (simp add: str_replace_def)

lemmas ex_eval =
  ex_clip_path ex_clip_path2 ex_video_path ex_video_path2 ex_audio_path ex_audio_path2
  ex_vtt_path ex_vtt_path2 ex_temp_path ex_temp_path2
  ex_orc_def ex_scene_def ex_world_def ex_env_def ex_env_dur_def ex_probe_def ex_write_def
  ex_inputs_def ex_inputs_vtt_def ex_chapter_inputs_def
  exists_path_def size_gt_def scene_audio_priority_def target_dims_def

section \<open>The passes of one scene\<close>

lemma run_cmd_eq:
  "engine e c (files w) = (r, fs1) \<Longrightarrow>
     run_cmd e c w = (r, w\<lparr>files := fs1, trace := trace w @ [c]\<rparr>)"
  by (simp add: run_cmd_def)

lemma run_cmd_trace:
  "run_cmd e c w = (r, w1) \<Longrightarrow> trace w1 = trace w @ [c] \<and> engine e c (files w) = (r, files w1)"
  by (auto simp: run_cmd_def split: prod.splits)

lemma burn_subtitles_trace:
  "burn_subtitles e vtt tmp out w = (r, w1) \<Longrightarrow>
     trace w1 = trace w \<or> trace w1 = trace w @ [Subtitle_burn tmp vtt out]"
  by (auto simp: burn_subtitles_def Let_def
      split: if_splits prod.splits run_result.splits dest!: run_cmd_trace)

lemma base_then_subtitles_trace:
  "base_then_subtitles e base vtt tmp out w = (r, w1) \<Longrightarrow>
     take (Suc (length (trace w))) (trace w1) = trace w @ [base]"
  by (auto simp: base_then_subtitles_def
      split: prod.splits run_result.splits dest!: run_cmd_trace burn_subtitles_trace)

lemma base_failed:
  assumes "engine e base (files w) = (Ran_failed, fs1)"
  shows "base_then_subtitles e base vtt tmp out w =
     (Returned False, w\<lparr>files := fs1, trace := trace w @ [base]\<rparr>)"
  by (simp add: base_then_subtitles_def run_cmd_eq [OF assms])

lemma remove_absent: "fs p = None \<Longrightarrow> fs(p := None) = fs"
  by (rule ext) simp

lemma burn_failed:
  assumes "engine e base (files w) = (Ran_ok, fs1)"
    and "exists_path fs1 vtt" and "size_gt fs1 vtt 10"
    and "engine e (Subtitle_burn tmp vtt out) fs1 = (Ran_failed, fs2)"
  shows "base_then_subtitles e base vtt tmp out w =
     (Returned False,
      w\<lparr>files := fs2(tmp := None), trace := trace w @ [base, Subtitle_burn tmp vtt out]\<rparr>)"
  using assms
  by (cases "fs2 tmp")
     (simp_all add: base_then_subtitles_def burn_subtitles_def run_cmd_def os_remove_def
        exists_path_def Let_def remove_absent)

lemma burn_ok:
  assumes "engine e base (files w) = (Ran_ok, fs1)"
    and "exists_path fs1 vtt" and "size_gt fs1 vtt 10"
    and "engine e (Subtitle_burn tmp vtt out) fs1 = (Ran_ok, fs2)"
  shows "base_then_subtitles e base vtt tmp out w =
     (Returned True,
      w\<lparr>files := fs2(tmp := None), trace := trace w @ [base, Subtitle_burn tmp vtt out]\<rparr>)"
  using assms
  by (cases "fs2 tmp")
     (simp_all add: base_then_subtitles_def burn_subtitles_def run_cmd_def os_remove_def
        exists_path_def Let_def remove_absent)

lemma no_captions_ok:
  assumes "engine e base (files w) = (Ran_ok, fs1)"
    and "\<not> (exists_path fs1 vtt \<and> size_gt fs1 vtt 10)"
    and "fs1 tmp = Some f"
  shows "base_then_subtitles e base vtt tmp out w =
     (Returned True, w\<lparr>files := (fs1(tmp := None))(out \<mapsto> f), trace := trace w @ [base]\<rparr>)"
  using assms
  by (auto simp: base_then_subtitles_def burn_subtitles_def run_cmd_def os_rename_def
        exists_path_def)

text \<open>
  \<open>render_scene\<close> is the early return for a finished clip, or False without a request, or
  the base request of the scene followed by the subtitle stage.
\<close>

lemma render_scene_base_request:
  "render_scene e orc sid w =
     (if exists_path (files w) (clip_of orc sid) \<and> size_gt (files w) (clip_of orc sid) (1024 * 1024)
      then (Returned True, w)
      else (case base_request e orc sid (files w) of
              None \<Rightarrow> (Returned False, w)
            | Some base \<Rightarrow>
                base_then_subtitles e base (vtt_of orc sid) (temp_of orc sid) (clip_of orc sid) w))"
  by (simp add: render_scene_def base_request_def render_tts_def Let_def split: prod.splits)

section \<open>The loop over the scenes\<close>

lemma render_loop_append:
  "render_loop e orc (xs @ ys) n w =
     (case render_loop e orc xs n w of
        (Raised, w1) \<Rightarrow> (Raised, w1)
      | (Returned k, w1) \<Rightarrow> render_loop e orc ys k w1)"
  by (induction xs arbitrary: n w) (auto split: prod.splits outcome.splits)

lemma render_loop_count:
  "render_loop e orc ss n w = (Returned k, w1) \<Longrightarrow> k \<le> n + length ss"
proof (induction ss arbitrary: n w)
  case Nil
  then show ?case by simp
next
  case (Cons s ss)
  then show ?case
    by (fastforce split: prod.splits outcome.splits if_splits)
qed

section \<open>The renderer\<close>

text \<open>
  C5: rendering is idempotent. When the clip of a scene exists with more than 1 MiB,
  \<open>render_scene\<close> returns True and leaves the world as it is: no request reaches the
  engine and no file changes. A second call therefore finds the same world and does the
  same.
\<close>

theorem render_scene_idempotent:
  assumes "exists_path (files w) (get_clip_path (pm_of orc) sid (shorts_mode orc))"
    and "size_gt (files w) (get_clip_path (pm_of orc) sid (shorts_mode orc)) (1024 * 1024)"
  shows "render_scene e orc sid w = (Returned True, w) \<and>
         render_scene e orc sid (snd (render_scene e orc sid w)) = (Returned True, w)"
  using assms by (simp add: render_scene_def Let_def)

theorem render_scene_idempotent_witness:
  "exists_path (files (ex_world [(''/p/clips/clip_001.mp4'', 2000000)]))
     (get_clip_path (pm_of (ex_orc None)) 1 (shorts_mode (ex_orc None))) \<and>
   size_gt (files (ex_world [(''/p/clips/clip_001.mp4'', 2000000)]))
     (get_clip_path (pm_of (ex_orc None)) 1 (shorts_mode (ex_orc None))) (1024 * 1024) \<and>
   render_scene (ex_env Ran_failed Ran_failed Ran_failed 5) (ex_orc None) 1
       (ex_world [(''/p/clips/clip_001.mp4'', 2000000)])
     = (Returned True, ex_world [(''/p/clips/clip_001.mp4'', 2000000)])"
  using render_scene_idempotent
    [of "ex_world [(''/p/clips/clip_001.mp4'', 2000000)]" "ex_orc None" 1
        "ex_env Ran_failed Ran_failed Ran_failed 5"]
  by (simp add: ex_clip_path ex_orc_def ex_world_def exists_path_def size_gt_def)

text \<open>
  C2: a scene with audio priority \<open>mix\<close> and no narration file should be rendered with the
  video's own audio. The code sets the priority to \<open>veo\<close> below the \<open>veo\<close> branch, reaches
  the default mode and returns False there because the narration file is missing: with a
  video present, no clip yet and an engine that would succeed, the scene fails and no
  request is made.
\<close>

theorem render_scene_mix_without_narration:
  "render_scene (ex_env Ran_ok Ran_ok Ran_ok 5) (ex_orc (Some ''mix'')) 1
       (ex_world [(''/p/scenes/scene_001.mp4'', 3000000)])
     = (Returned False, ex_world [(''/p/scenes/scene_001.mp4'', 3000000)])"
  by (simp add: render_scene_def render_tts_def Let_def ex_eval)

text \<open>
  C3, as the code has it: in the default (TTS) mode, with a probed video duration
  \<open>v > 0\<close> and a narration duration \<open>a > 0\<close>, the base request of the scene carries a tempo
  filter exactly when \<open>v < a\<close> and the float quotient of \<open>a\<close> by \<open>v\<close> is greater than the
  float \<open>1.05\<close>; the factor is that quotient and the output is limited to \<open>v\<close> seconds.
  Otherwise the narration stream is mapped as it is and the limit is \<open>a\<close>. When the passes
  succeed, \<open>render_scene\<close> returns True and the clip is the file the engine wrote for this
  request: the temp file renamed when there are no captions, the output of the subtitle
  pass when there are.
\<close>

theorem render_scene_tts_retime:
  assumes "\<not> (exists_path (files w) (clip_of orc sid) \<and>
              size_gt (files w) (clip_of orc sid) (1024 * 1024))"
    and "exists_path (files w) (video_of orc sid)"
    and "exists_path (files w) (audio_of orc sid)"
    and "scene_audio_priority orc sid = ''tts''"
    and "v = get_duration e (files w) (video_of orc sid)"
    and "a = get_duration e (files w) (audio_of orc sid)"
    and "0 < v" and "0 < a"
    and "req =
      Tts_render (video_of orc sid) (audio_of orc sid)
        (if v < a \<and> fl (105 / 100) < fl (a / v) then Some (fl (a / v)) else None)
        (if v < a \<and> fl (105 / 100) < fl (a / v) then ''[a_adj]'' else ''1:a'')
        (if v < a \<and> fl (105 / 100) < fl (a / v) then v else a)
        (fst (target_dims (shorts_mode orc))) (snd (target_dims (shorts_mode orc)))
        (temp_of orc sid)"
    and "engine e req (files w) = (r1, fs1)"
  shows "base_request e orc sid (files w) = Some req \<and>
    take (Suc (length (trace w))) (trace (snd (render_scene e orc sid w))) = trace w @ [req] \<and>
    (r1 = Ran_ok \<and> \<not> (exists_path fs1 (vtt_of orc sid) \<and> size_gt fs1 (vtt_of orc sid) 10) \<and>
     fs1 (temp_of orc sid) = Some f \<longrightarrow>
       render_scene e orc sid w =
         (Returned True,
          w\<lparr>files := (fs1(temp_of orc sid := None))(clip_of orc sid \<mapsto> f),
            trace := trace w @ [req]\<rparr>)) \<and>
    (r1 = Ran_ok \<and> exists_path fs1 (vtt_of orc sid) \<and> size_gt fs1 (vtt_of orc sid) 10 \<and>
     engine e (burn_of orc sid) fs1 = (Ran_ok, fs2) \<longrightarrow>
       render_scene e orc sid w =
         (Returned True,
          w\<lparr>files := fs2(temp_of orc sid := None),
            trace := trace w @ [req, burn_of orc sid]\<rparr>))"
proof -
  have br: "base_request e orc sid (files w) = Some req"
    using assms(2-4,7,8) assms(5,6)[symmetric] assms(9)
    by (simp add: base_request_def tts_plan_def Let_def)
  have rs: "render_scene e orc sid w =
      base_then_subtitles e req (vtt_of orc sid) (temp_of orc sid) (clip_of orc sid) w"
    using assms(1) br by (auto simp: render_scene_base_request)
  have tr: "take (Suc (length (trace w))) (trace (snd (render_scene e orc sid w))) = trace w @ [req]"
    unfolding rs
    by (cases "base_then_subtitles e req (vtt_of orc sid) (temp_of orc sid) (clip_of orc sid) w")
       (auto dest: base_then_subtitles_trace)
  show ?thesis
    using br tr assms(10) unfolding rs
    by (auto simp: no_captions_ok burn_ok)
qed

lemma fl_1_05: "fl (21 / 20) = 4728779608739021 / 4503599627370496"
  by code_simp

lemma fl_1_6: "fl (8 / 5) = 3602879701896397 / 2251799813685248"
  by code_simp

lemma tts_plan_5_8: "tts_plan 5 8 = (Some (fl (8 / 5)), ''[a_adj]'', 5)"
  by (simp add: tts_plan_def fl_1_05 fl_1_6)

lemma tts_plan_7_8: "tts_plan (fl (39 / 5)) 8 = (None, ''1:a'', 8)"
  by code_simp

lemma tts_plan_edge: "tts_plan (fl (6 / 5)) (fl (63 / 50)) = (None, ''1:a'', fl (63 / 50))"
  by code_simp

lemma edge_exact:
  "0 < fl (6 / 5) \<and> fl (6 / 5) < fl (63 / 50) \<and> 21 / 20 < fl (63 / 50) / fl (6 / 5) \<and>
   fl (21 / 20) < fl (63 / 50) / fl (6 / 5)"
  by code_simp

lemmas render_eval =
  render_scene_def render_tts_def base_then_subtitles_def burn_subtitles_def
  run_cmd_def os_remove_def os_rename_def Let_def ex_eval

theorem render_scene_tts_retime_witness:
  "render_scene (ex_env Ran_ok Ran_ok Ran_ok 5) (ex_orc None) 1 ex_inputs =
     (Returned True,
      ex_inputs
        \<lparr>files := (files ex_inputs)
           (''/p/clips/clip_001_temp.mp4'' := None, ''/p/clips/clip_001.mp4'' \<mapsto> Blob 5000000 7),
         trace :=
           [Tts_render ''/p/scenes/scene_001.mp4'' ''/p/assets/audio_001.mp3'' (Some (fl (8 / 5)))
              ''[a_adj]'' 5 1920 1080 ''/p/clips/clip_001_temp.mp4'']\<rparr>) \<and>
   take 1 (trace (snd (render_scene (ex_env Ran_ok Ran_ok Ran_ok (fl (78 / 10))) (ex_orc None) 1
      ex_inputs))) =
     [Tts_render ''/p/scenes/scene_001.mp4'' ''/p/assets/audio_001.mp3'' None ''1:a'' 8
        1920 1080 ''/p/clips/clip_001_temp.mp4'']"
proof -
  let ?e = "ex_env Ran_ok Ran_ok Ran_ok 5"
  let ?req = "Tts_render ''/p/scenes/scene_001.mp4'' ''/p/assets/audio_001.mp3'' (Some (fl (8 / 5)))
      ''[a_adj]'' 5 1920 1080 ''/p/clips/clip_001_temp.mp4''"
  let ?fs1 = "(files ex_inputs)(''/p/clips/clip_001_temp.mp4'' \<mapsto> Blob 5000000 7)"
  have h1: "\<not> (exists_path (files ex_inputs) (clip_of (ex_orc None) 1) \<and>
      size_gt (files ex_inputs) (clip_of (ex_orc None) 1) (1024 * 1024))"
    by (simp add: ex_eval)
  have h2: "exists_path (files ex_inputs) (video_of (ex_orc None) 1)"
    by (simp add: ex_eval)
  have h3: "exists_path (files ex_inputs) (audio_of (ex_orc None) 1)"
    by (simp add: ex_eval)
  have h4: "scene_audio_priority (ex_orc None) 1 = ''tts''"
    by (simp add: ex_eval)
  have h5: "5 = get_duration ?e (files ex_inputs) (video_of (ex_orc None) 1)"
    by (simp add: ex_eval)
  have h6: "8 = get_duration ?e (files ex_inputs) (audio_of (ex_orc None) 1)"
    by (simp add: ex_eval)
  have h9: "?req =
      Tts_render (video_of (ex_orc None) 1) (audio_of (ex_orc None) 1)
        (if (5::rat) < 8 \<and> fl (105 / 100) < fl (8 / 5) then Some (fl (8 / 5)) else None)
        (if (5::rat) < 8 \<and> fl (105 / 100) < fl (8 / 5) then ''[a_adj]'' else ''1:a'')
        (if (5::rat) < 8 \<and> fl (105 / 100) < fl (8 / 5) then 5 else 8)
        (fst (target_dims (shorts_mode (ex_orc None)))) (snd (target_dims (shorts_mode (ex_orc None))))
        (temp_of (ex_orc None) 1)"
    by (simp add: ex_eval fl_1_05 fl_1_6)
  have h10: "engine ?e ?req (files ex_inputs) = (Ran_ok, ?fs1)"
    by (simp add: ex_eval)
  have c: "\<not> (exists_path ?fs1 (vtt_of (ex_orc None) 1) \<and> size_gt ?fs1 (vtt_of (ex_orc None) 1) 10)"
    by (simp add: ex_eval)
  have t: "?fs1 (temp_of (ex_orc None) 1) = Some (Blob 5000000 7)"
    by (simp add: ex_eval)
  from render_scene_tts_retime [OF h1 h2 h3 h4 h5 h6 _ _ h9 h10, of "Blob 5000000 7"] c t
  have "render_scene ?e (ex_orc None) 1 ex_inputs =
         (Returned True,
          ex_inputs\<lparr>files := (?fs1(temp_of (ex_orc None) 1 := None))
                       (clip_of (ex_orc None) 1 \<mapsto> Blob 5000000 7),
            trace := trace ex_inputs @ [?req]\<rparr>)"
    by simp
  moreover have "take 1 (trace (snd (render_scene (ex_env Ran_ok Ran_ok Ran_ok (fl (78 / 10)))
      (ex_orc None) 1 ex_inputs))) =
     [Tts_render ''/p/scenes/scene_001.mp4'' ''/p/assets/audio_001.mp3'' None ''1:a'' 8
        1920 1080 ''/p/clips/clip_001_temp.mp4'']"
    by (simp add: render_eval tts_plan_7_8)
  ultimately show ?thesis by (simp add: ex_eval)
qed

text \<open>
  C3 as stated, with the exact quotient, fails within a rounding step of 1.05: the
  doubles nearest 1.2 and 1.26 have an exact quotient greater than 1.05 (and greater than
  the double 1.05), their float quotient is the double 1.05 itself, and the narration is
  not retimed.
\<close>

theorem tts_retime_float_quotient:
  "0 < fl (12 / 10) \<and> fl (12 / 10) < fl (126 / 100) \<and>
   105 / 100 < fl (126 / 100) / fl (12 / 10) \<and>
   fl (105 / 100) < fl (126 / 100) / fl (12 / 10) \<and>
   trace (snd (render_scene (ex_env_dur Ran_ok Ran_ok Ran_ok (fl (12 / 10)) (fl (126 / 100)))
      (ex_orc None) 1 ex_inputs)) =
     [Tts_render ''/p/scenes/scene_001.mp4'' ''/p/assets/audio_001.mp3'' None ''1:a''
        (fl (126 / 100)) 1920 1080 ''/p/clips/clip_001_temp.mp4'']"
proof -
  have p: "0 < fl (63 / 50)"
    using edge_exact by simp
  show ?thesis
    using edge_exact p
    by (simp add: render_eval tts_plan_edge)
qed

text \<open>
  C9, as the code has it. For a scene without a finished clip whose base request is made:
  when the base pass fails, \<open>render_scene\<close> returns False and the files are exactly as the
  engine left them, nothing is deleted; when the base pass succeeds and the subtitle pass
  fails, it returns False as well, and the temp file of the base pass has been removed
  from what the engine left. \<open>render_all\<close> then goes on: it renders the scenes after the
  failed one from that state and returns False.
\<close>

theorem render_scene_failure_files:
  assumes nv: "\<not> (exists_path (files w) (clip_of orc sid) \<and>
                size_gt (files w) (clip_of orc sid) (1024 * 1024))"
    and br: "base_request e orc sid (files w) = Some base"
    and eb: "engine e base (files w) = (r1, fs1)"
    and fail:
      "r1 = Ran_failed \<and> w' = w\<lparr>files := fs1, trace := trace w @ [base]\<rparr> \<or>
       r1 = Ran_ok \<and> exists_path fs1 (vtt_of orc sid) \<and> size_gt fs1 (vtt_of orc sid) 10 \<and>
         engine e (burn_of orc sid) fs1 = (Ran_failed, fs2) \<and>
         w' = w\<lparr>files := fs2(temp_of orc sid := None),
                trace := trace w @ [base, burn_of orc sid]\<rparr>"
  shows "render_scene e orc sid w = (Returned False, w') \<and>
    (scenes orc = before @ s # rest \<and> scene_id s = sid \<and>
     missing_scene_videos e orc (normalize_scene_files orc (files w0)) = [] \<and>
     render_loop e orc before 0 (w0\<lparr>files := normalize_scene_files orc (files w0)\<rparr>)
       = (Returned k, w) \<longrightarrow>
       render_all e normalize_scene_files orc w0 =
         (case render_loop e orc rest k w' of
            (Raised, w2) \<Rightarrow> (Raised, w2)
          | (Returned j, w2) \<Rightarrow> (Returned False, w2)))"
proof -
  have rs: "render_scene e orc sid w =
      base_then_subtitles e base (vtt_of orc sid) (temp_of orc sid) (clip_of orc sid) w"
    using nv br by (auto simp: render_scene_base_request)
  have f: "render_scene e orc sid w = (Returned False, w')"
    using fail eb unfolding rs by (auto simp: base_failed burn_failed)
  have "render_all e normalize_scene_files orc w0 =
         (case render_loop e orc rest k w' of
            (Raised, w2) \<Rightarrow> (Raised, w2)
          | (Returned j, w2) \<Rightarrow> (Returned False, w2))"
    if sc: "scenes orc = before @ s # rest" and sid: "scene_id s = sid"
      and ms: "missing_scene_videos e orc (normalize_scene_files orc (files w0)) = []"
      and pre: "render_loop e orc before 0 (w0\<lparr>files := normalize_scene_files orc (files w0)\<rparr>)
          = (Returned k, w)"
  proof -
    have ne: "scenes orc \<noteq> []" using sc by simp
    have k: "k \<le> length before" using render_loop_count [OF pre] by simp
    have lp: "render_loop e orc (scenes orc) 0 (w0\<lparr>files := normalize_scene_files orc (files w0)\<rparr>)
        = render_loop e orc rest k w'"
      unfolding sc by (simp add: render_loop_append pre sid f)
    show ?thesis
    proof (cases "render_loop e orc rest k w'")
      case (Pair r w2)
      show ?thesis
      proof (cases r)
        case (Returned j)
        with Pair have "j \<le> k + length rest" using render_loop_count by blast
        with k have "j \<noteq> length (scenes orc)" unfolding sc by simp
        with Pair Returned ne ms lp show ?thesis by (simp add: render_all_def Let_def)
      next
        case Raised
        with Pair ne ms lp show ?thesis by (simp add: render_all_def Let_def)
      qed
    qed
  qed
  with f show ?thesis by blast
qed

lemmas first_fails_eval = ex_env_first_fails_def ex_probe_def ex_write_def

theorem render_scene_failure_files_witness:
  "render_scene ex_env_first_fails (ex_orc None) 1 ex_chapter_inputs =
     (Returned False,
      ex_chapter_inputs
        \<lparr>files := (files ex_chapter_inputs)(''/p/clips/clip_001_temp.mp4'' \<mapsto> Blob 5000000 7),
         trace :=
           [Tts_render ''/p/scenes/scene_001.mp4'' ''/p/assets/audio_001.mp3'' (Some (fl (8 / 5)))
              ''[a_adj]'' 5 1920 1080 ''/p/clips/clip_001_temp.mp4'']\<rparr>) \<and>
   fst (render_all ex_env_first_fails (\<lambda>orc fs. fs) (ex_orc None) ex_chapter_inputs)
     = Returned False \<and>
   trace (snd (render_all ex_env_first_fails (\<lambda>orc fs. fs) (ex_orc None) ex_chapter_inputs)) =
     [Tts_render ''/p/scenes/scene_001.mp4'' ''/p/assets/audio_001.mp3'' (Some (fl (8 / 5)))
        ''[a_adj]'' 5 1920 1080 ''/p/clips/clip_001_temp.mp4'',
      Tts_render ''/p/scenes/scene_002.mp4'' ''/p/assets/audio_002.mp3'' (Some (fl (8 / 5)))
        ''[a_adj]'' 5 1920 1080 ''/p/clips/clip_002_temp.mp4''] \<and>
   files (snd (render_all ex_env_first_fails (\<lambda>orc fs. fs) (ex_orc None) ex_chapter_inputs))
     ''/p/clips/clip_002.mp4'' = Some (Blob 5000000 7) \<and>
   files (snd (render_all ex_env_first_fails (\<lambda>orc fs. fs) (ex_orc None) ex_chapter_inputs))
     ''/p/clips/clip_001_temp.mp4'' = Some (Blob 5000000 7)"
proof -
  let ?e = ex_env_first_fails
  let ?req = "Tts_render ''/p/scenes/scene_001.mp4'' ''/p/assets/audio_001.mp3'' (Some (fl (8 / 5)))
      ''[a_adj]'' 5 1920 1080 ''/p/clips/clip_001_temp.mp4''"
  let ?fs1 = "(files ex_chapter_inputs)(''/p/clips/clip_001_temp.mp4'' \<mapsto> Blob 5000000 7)"
  let ?w' = "ex_chapter_inputs\<lparr>files := ?fs1, trace := trace ex_chapter_inputs @ [?req]\<rparr>"
  have nv: "\<not> (exists_path (files ex_chapter_inputs) (clip_of (ex_orc None) 1) \<and>
      size_gt (files ex_chapter_inputs) (clip_of (ex_orc None) 1) (1024 * 1024))"
    by (simp add: ex_eval)
  have br: "base_request ?e (ex_orc None) 1 (files ex_chapter_inputs) = Some ?req"
    by (simp add: base_request_def Let_def ex_eval first_fails_eval tts_plan_5_8)
  have eb: "engine ?e ?req (files ex_chapter_inputs) = (Ran_failed, ?fs1)"
    by (simp add: first_fails_eval)
  have sc: "scenes (ex_orc None) = [] @ ex_scene 1 None # [ex_scene 2 None]"
    by (simp add: ex_orc_def)
  have u: "[1 ..< Suc (length (scenes (ex_orc None)))] = [1, 2]"
    by (simp add: ex_orc_def upt_rec)
  have p1: "path_join (check_dir (ex_orc None)) (''scene_'' @ fmt_0d 3 (int 1) @ ''.mp4'')
      = ''/p/scenes/scene_001.mp4''"
    by (simp add: check_dir_def ex_orc_def path_eval)
  have p2: "path_join (check_dir (ex_orc None)) (''scene_'' @ fmt_0d 3 (int 2) @ ''.mp4'')
      = ''/p/scenes/scene_002.mp4''"
    by (simp add: check_dir_def ex_orc_def path_eval)
  have v1: "validate_video_asset ?e (files ex_chapter_inputs) ''/p/scenes/scene_001.mp4''"
    by (simp add: validate_video_asset_def ex_chapter_inputs_def ex_world_def first_fails_eval)
  have v2: "validate_video_asset ?e (files ex_chapter_inputs) ''/p/scenes/scene_002.mp4''"
    by (simp add: validate_video_asset_def ex_chapter_inputs_def ex_world_def first_fails_eval)
  have ms: "missing_scene_videos ?e (ex_orc None) (files ex_chapter_inputs) = []"
    unfolding missing_scene_videos_def u
    by (simp only: filter.simps p1 p2 v1 v2 not_True_eq_False if_False)
  from render_scene_failure_files [of ex_chapter_inputs "ex_orc None" 1 ?e ?req Ran_failed ?fs1 ?w'
      ?fs1 "[]" "ex_scene 1 None" "[ex_scene 2 None]" "\<lambda>orc fs. fs" ex_chapter_inputs 0,
      OF nv br eb] sc ms
  have a: "render_scene ?e (ex_orc None) 1 ex_chapter_inputs = (Returned False, ?w')"
    and b: "render_all ?e (\<lambda>orc fs. fs) (ex_orc None) ex_chapter_inputs =
         (case render_loop ?e (ex_orc None) [ex_scene 2 None] 0 ?w' of
            (Raised, w2) \<Rightarrow> (Raised, w2)
          | (Returned j, w2) \<Rightarrow> (Returned False, w2))"
    by (simp_all add: ex_scene_def)
  have c: "render_scene ?e (ex_orc None) 2 ?w' =
      (Returned True,
       ?w'\<lparr>files := (?fs1(''/p/clips/clip_002_temp.mp4'' := None))
                  (''/p/clips/clip_002.mp4'' \<mapsto> Blob 5000000 7),
           trace := [?req,
             Tts_render ''/p/scenes/scene_002.mp4'' ''/p/assets/audio_002.mp3'' (Some (fl (8 / 5)))
               ''[a_adj]'' 5 1920 1080 ''/p/clips/clip_002_temp.mp4'']\<rparr>)"
    by (simp add: render_eval first_fails_eval tts_plan_5_8)
  show ?thesis
    unfolding b using a c by (simp add: ex_scene_def ex_chapter_inputs_def ex_world_def)
qed

text \<open>
  C9 as stated fails for the subtitle pass: the base pass writes the temp file, the
  subtitle pass fails and leaves it where it is, and \<open>render_scene\<close> removes it before
  it returns False.
\<close>

theorem render_scene_failed_burn_removes_temp:
  "fst (render_scene (ex_env Ran_ok Ran_failed Ran_ok 5) (ex_orc None) 1 ex_inputs_vtt)
     = Returned False \<and>
   trace (snd (render_scene (ex_env Ran_ok Ran_failed Ran_ok 5) (ex_orc None) 1 ex_inputs_vtt)) =
     [Tts_render ''/p/scenes/scene_001.mp4'' ''/p/assets/audio_001.mp3'' (Some (fl (8 / 5)))
        ''[a_adj]'' 5 1920 1080 ''/p/clips/clip_001_temp.mp4'',
      Subtitle_burn ''/p/clips/clip_001_temp.mp4'' ''/p/assets/audio_001.vtt''
        ''/p/clips/clip_001.mp4''] \<and>
   exists_path
     (snd (ex_engine Ran_ok Ran_failed Ran_ok
        (Subtitle_burn ''/p/clips/clip_001_temp.mp4'' ''/p/assets/audio_001.vtt''
           ''/p/clips/clip_001.mp4'')
        (snd (ex_engine Ran_ok Ran_failed Ran_ok
           (Tts_render ''/p/scenes/scene_001.mp4'' ''/p/assets/audio_001.mp3'' (Some (fl (8 / 5)))
              ''[a_adj]'' 5 1920 1080 ''/p/clips/clip_001_temp.mp4'')
           (files ex_inputs_vtt)))))
     ''/p/clips/clip_001_temp.mp4'' \<and>
   \<not> exists_path
     (files (snd (render_scene (ex_env Ran_ok Ran_failed Ran_ok 5) (ex_orc None) 1 ex_inputs_vtt)))
     ''/p/clips/clip_001_temp.mp4''"
  by (simp add: render_eval tts_plan_5_8)
end
